theory Spec2Isabelle
  imports Complex_Main
begin

section \<open>Magnetic fields of current loops and (anti-)Helmholtz coils\<close>

text \<open>
  A shallow embedding of \<^verbatim>\<open>HelmholtzCoil.py\<close>. Python and numpy floats are
  idealised as real numbers: rounding and overflow are outside the model, and a float
  that is \<^verbatim>\<open>nan\<close> or \<^verbatim>\<open>inf\<close> is an outcome of its own, since it is
  no real number. Only the two functions compared on the axis are given a second time
  with rounding, in binary64 arithmetic.
\<close>

subsection \<open>Outcomes of an evaluation\<close>

text \<open>
  \<^item> \<open>NameError n\<close>: the name \<open>n\<close> is bound nowhere when it is evaluated;
  \<^item> \<open>ZeroDivisionError\<close>: a division of Python scalars by zero;
  \<^item> \<open>NonFinite\<close>: nothing is raised, but the float computed is \<^verbatim>\<open>nan\<close> or
    \<^verbatim>\<open>inf\<close> (numpy divides by zero with a warning only, and the elliptic
    integrals leave their domain of finiteness that way).
\<close>

datatype error = NameError string | ZeroDivisionError | NonFinite

type_synonym 'a result = "error + 'a"

definition andThen :: "'a result \<Rightarrow> ('a \<Rightarrow> 'b result) \<Rightarrow> 'b result" where
  "andThen r f = (case r of Inl e \<Rightarrow> Inl e | Inr v \<Rightarrow> f v)"

text \<open>\<^verbatim>\<open>a / b\<close> on Python scalars (int or float).\<close>

definition py_div :: "real \<Rightarrow> real \<Rightarrow> real result" where
  "py_div a b = (if b = 0 then Inl ZeroDivisionError else Inr (a / b))"

text \<open>\<^verbatim>\<open>a / b\<close> where an operand is a \<^verbatim>\<open>numpy.float64\<close>.\<close>

definition np_div :: "real \<Rightarrow> real \<Rightarrow> real result" where
  "np_div a b = (if b = 0 then Inl NonFinite else Inr (a / b))"

subsection \<open>The external elliptic-integral evaluator\<close>

text \<open>
  \<^verbatim>\<open>scipy.special.ellipk\<close> and \<^verbatim>\<open>scipy.special.ellipe\<close> are no code of this
  module. The real functions \<open>Kint\<close> and \<open>Eint\<close> that they compute (in the parameter
  \<open>m\<close>) are parameters of the model; \<open>ellipk\<close> and \<open>ellipe\<close> add what scipy returns
  outside the domain of finiteness: \<^verbatim>\<open>ellipk(1) = inf\<close>, and \<^verbatim>\<open>nan\<close> for both
  above 1. Both return a \<^verbatim>\<open>numpy.float64\<close>.
\<close>

definition ellipk :: "(real \<Rightarrow> real) \<Rightarrow> real \<Rightarrow> real result" where
  "ellipk Kint m = (if m < 1 then Inr (Kint m) else Inl NonFinite)"

definition ellipe :: "(real \<Rightarrow> real) \<Rightarrow> real \<Rightarrow> real result" where
  "ellipe Eint m = (if m \<le> 1 then Inr (Eint m) else Inl NonFinite)"

text \<open>
  The Maclaurin series of the two complete elliptic integrals in the parameter \<open>m\<close>:
  a concrete pair of functions to run the model on.
\<close>

definition ellip_coeff :: "nat \<Rightarrow> real" where
  "ellip_coeff n = (fact (2 * n) / (2 ^ (2 * n) * (fact n)\<^sup>2))\<^sup>2"

definition ellipk_series :: "real \<Rightarrow> real" where
  "ellipk_series m = pi / 2 * (\<Sum>n. ellip_coeff n * m ^ n)"

definition ellipe_series :: "real \<Rightarrow> real" where
  "ellipe_series m = pi / 2 * (\<Sum>n. ellip_coeff n / (1 - 2 * real n) * m ^ n)"

subsection \<open>Current loop\<close>

definition mu0 :: real where
  "mu0 = 4 * pi * (1 / 10 ^ 7)"

definition FieldLoopBz :: "(real \<Rightarrow> real) \<Rightarrow> (real \<Rightarrow> real) \<Rightarrow> real \<Rightarrow> real \<Rightarrow> real \<Rightarrow> real result" where
  "FieldLoopBz Kint Eint z rho R =
     andThen (py_div (4 * R * rho) ((R + rho)\<^sup>2 + z\<^sup>2)) (\<lambda>ksq.
     andThen (ellipk Kint ksq) (\<lambda>K.
     andThen (ellipe Eint ksq) (\<lambda>E.
     andThen (np_div R (pi * sqrt ((R + rho)\<^sup>2 + z\<^sup>2))) (\<lambda>c.
     andThen (np_div (E * (R\<^sup>2 - rho\<^sup>2 - z\<^sup>2)) ((R - rho)\<^sup>2 + z\<^sup>2)) (\<lambda>t.
     Inr (c * (K + t)))))))"

text \<open>Lines 50 to 53 of the source: the closed form behind the guard of \<open>FieldLoopBrho\<close>.\<close>

definition FieldLoopBrho_closed :: "(real \<Rightarrow> real) \<Rightarrow> (real \<Rightarrow> real) \<Rightarrow> real \<Rightarrow> real \<Rightarrow> real \<Rightarrow> real result" where
  "FieldLoopBrho_closed Kint Eint z rho R =
     andThen (py_div (4 * R * rho) ((R + rho)\<^sup>2 + z\<^sup>2)) (\<lambda>ksq.
     andThen (ellipk Kint ksq) (\<lambda>K.
     andThen (ellipe Eint ksq) (\<lambda>E.
     andThen (np_div (R * z) (pi * rho * sqrt ((R + rho)\<^sup>2 + z\<^sup>2))) (\<lambda>c.
     andThen (np_div (E * (R\<^sup>2 + rho\<^sup>2 + z\<^sup>2)) ((R - rho)\<^sup>2 + z\<^sup>2)) (\<lambda>t.
     Inr (c * (- K + t)))))))"

definition FieldLoopBrho :: "(real \<Rightarrow> real) \<Rightarrow> (real \<Rightarrow> real) \<Rightarrow> real \<Rightarrow> real \<Rightarrow> real \<Rightarrow> real result" where
  "FieldLoopBrho Kint Eint z rho R =
     (if rho = 0 then Inr 0 else FieldLoopBrho_closed Kint Eint z rho R)"

definition FieldLoopOnAxis :: "real \<Rightarrow> real \<Rightarrow> real result" where
  "FieldLoopOnAxis z R = py_div (R ^ 3) ((R\<^sup>2 + z\<^sup>2) powr (3 / 2))"

definition MagneticFieldLoopBz :: "(real \<Rightarrow> real) \<Rightarrow> (real \<Rightarrow> real) \<Rightarrow> real \<Rightarrow> real \<Rightarrow> real \<Rightarrow> real \<Rightarrow> real result" where
  "MagneticFieldLoopBz Kint Eint z rho R I =
     andThen (py_div (mu0 * I) (2 * R)) (\<lambda>c.
     andThen (FieldLoopBz Kint Eint z rho R) (\<lambda>f. Inr (c * f)))"

definition MagneticFieldLoopBrho :: "(real \<Rightarrow> real) \<Rightarrow> (real \<Rightarrow> real) \<Rightarrow> real \<Rightarrow> real \<Rightarrow> real \<Rightarrow> real \<Rightarrow> real result" where
  "MagneticFieldLoopBrho Kint Eint z rho R I =
     andThen (py_div (mu0 * I) (2 * R)) (\<lambda>c.
     andThen (FieldLoopBrho Kint Eint z rho R) (\<lambda>f. Inr (c * f)))"

definition MagneticFieldLoopOnAxis :: "real \<Rightarrow> real \<Rightarrow> real \<Rightarrow> real result" where
  "MagneticFieldLoopOnAxis z R I =
     andThen (py_div (mu0 * I) (2 * R)) (\<lambda>c.
     andThen (FieldLoopOnAxis z R) (\<lambda>f. Inr (c * f)))"

subsection \<open>The loop as a polygon of \<open>N\<close> straight wires\<close>

type_synonym vec3 = "real \<times> real \<times> real"

fun cross :: "vec3 \<Rightarrow> vec3 \<Rightarrow> vec3" where
  "cross (a1, a2, a3) (b1, b2, b3) = (a2 * b3 - a3 * b2, a3 * b1 - a1 * b3, a1 * b2 - a2 * b1)"

fun norm3 :: "vec3 \<Rightarrow> real" where
  "norm3 (x, y, z) = sqrt (x\<^sup>2 + y\<^sup>2 + z\<^sup>2)"

fun vadd :: "vec3 \<Rightarrow> vec3 \<Rightarrow> vec3" where
  "vadd (a1, a2, a3) (b1, b2, b3) = (a1 + b1, a2 + b2, a3 + b3)"

text \<open>
  An array divided by a scalar, by numpy: nothing is raised, and a zero divisor leaves
  \<^verbatim>\<open>nan\<close> or \<^verbatim>\<open>inf\<close> in every component.
\<close>

fun vdiv :: "vec3 \<Rightarrow> real \<Rightarrow> vec3 result" where
  "vdiv (a1, a2, a3) d = (if d = 0 then Inl NonFinite else Inr (a1 / d, a2 / d, a3 / d))"

text \<open>The body of the loop for the segment \<open>i\<close>, up to \<open>dbf\<close>.\<close>

definition FieldLoopDiscrete_segment :: "real \<Rightarrow> real \<Rightarrow> int \<Rightarrow> int \<Rightarrow> vec3 result" where
  "FieldLoopDiscrete_segment z rho N i =
     andThen (py_div (of_int i * 2 * pi) (of_int N)) (\<lambda>theta0.
     andThen (py_div (2 * pi) (of_int N)) (\<lambda>step.
       let theta1 = theta0 + step;
           dl = (cos theta1 - cos theta0, sin theta1 - sin theta0, 0);
           s = (rho - cos theta0, - sin theta0, z);
           ns = norm3 s
       in vdiv (cross dl s) (ns ^ 3)))"

text \<open>\<^verbatim>\<open>for i in range(N)\<close>, over the indices still to come, with the sum so far.\<close>

fun FieldLoopDiscrete_loop :: "real \<Rightarrow> real \<Rightarrow> int \<Rightarrow> int list \<Rightarrow> vec3 \<Rightarrow> vec3 result" where
  "FieldLoopDiscrete_loop z rho N [] bf = Inr bf"
| "FieldLoopDiscrete_loop z rho N (i # rest) bf =
     (case FieldLoopDiscrete_segment z rho N i of
        Inl e \<Rightarrow> Inl e
      | Inr dbf \<Rightarrow> FieldLoopDiscrete_loop z rho N rest (vadd bf dbf))"

definition FieldLoopDiscrete :: "real \<Rightarrow> real \<Rightarrow> int \<Rightarrow> vec3 result" where
  "FieldLoopDiscrete z rho N =
     (if z = 0 \<and> \<bar>rho\<bar> = 1 then Inr (0, 0, 0)
      else andThen (FieldLoopDiscrete_loop z rho N (map int [0..<nat N]) (0, 0, 0)) (\<lambda>bf.
           vdiv bf (2 * pi)))"

subsection \<open>Calls of the single-loop functions by name\<close>

text \<open>
  Python looks a global name up when the call is evaluated, before its arguments. These
  are the module's bindings that take \<open>(z, rho, R)\<close> and that the coil functions below
  call; the module binds no other name that starts with \<^verbatim>\<open>FieldLoopB\<close>.
\<close>

definition module_loop_functions ::
  "(real \<Rightarrow> real) \<Rightarrow> (real \<Rightarrow> real) \<Rightarrow> string \<rightharpoonup> (real \<Rightarrow> real \<Rightarrow> real \<Rightarrow> real result)" where
  "module_loop_functions Kint Eint =
     [''FieldLoopBz'' \<mapsto> FieldLoopBz Kint Eint, ''FieldLoopBrho'' \<mapsto> FieldLoopBrho Kint Eint]"

definition call_loop ::
  "(real \<Rightarrow> real) \<Rightarrow> (real \<Rightarrow> real) \<Rightarrow> string \<Rightarrow> real \<Rightarrow> real \<Rightarrow> real \<Rightarrow> real result" where
  "call_loop Kint Eint name z rho R =
     (case module_loop_functions Kint Eint name of
        None \<Rightarrow> Inl (NameError name)
      | Some f \<Rightarrow> f z rho R)"

subsection \<open>Helmholtz coil\<close>

definition FieldHelmholtzOnAxis :: "real \<Rightarrow> real \<Rightarrow> real result" where
  "FieldHelmholtzOnAxis z R =
     andThen (py_div (R ^ 3) ((R\<^sup>2 + (z + R / 2)\<^sup>2) powr (3 / 2))) (\<lambda>a.
     andThen (py_div (R ^ 3) ((R\<^sup>2 + (z - R / 2)\<^sup>2) powr (3 / 2))) (\<lambda>b.
     Inr (a + b)))"

definition MagneticFieldHelmholtzOnAxis :: "real \<Rightarrow> real \<Rightarrow> real \<Rightarrow> real result" where
  "MagneticFieldHelmholtzOnAxis z R I =
     andThen (py_div (mu0 * I) (2 * R)) (\<lambda>c.
     andThen (FieldHelmholtzOnAxis z R) (\<lambda>f. Inr (c * f)))"

definition FieldHelmholtzBz :: "(real \<Rightarrow> real) \<Rightarrow> (real \<Rightarrow> real) \<Rightarrow> real \<Rightarrow> real \<Rightarrow> real \<Rightarrow> real result" where
  "FieldHelmholtzBz Kint Eint z rho R =
     andThen (call_loop Kint Eint ''FieldLoopBz'' (z + R / 2) rho R) (\<lambda>a.
     andThen (call_loop Kint Eint ''FieldLoopBz'' (z - R / 2) rho R) (\<lambda>b.
     Inr (a + b)))"

definition MagneticFieldHelmholtzBz :: "(real \<Rightarrow> real) \<Rightarrow> (real \<Rightarrow> real) \<Rightarrow> real \<Rightarrow> real \<Rightarrow> real \<Rightarrow> real \<Rightarrow> real result" where
  "MagneticFieldHelmholtzBz Kint Eint z rho R I =
     andThen (py_div (mu0 * I) (2 * R)) (\<lambda>c.
     andThen (FieldHelmholtzBz Kint Eint z rho R) (\<lambda>f. Inr (c * f)))"

definition FieldHelmholtzBrho :: "(real \<Rightarrow> real) \<Rightarrow> (real \<Rightarrow> real) \<Rightarrow> real \<Rightarrow> real \<Rightarrow> real \<Rightarrow> real result" where
  "FieldHelmholtzBrho Kint Eint z rho R =
     andThen (call_loop Kint Eint ''FieldLoopBro'' (z + R / 2) rho R) (\<lambda>a.
     andThen (call_loop Kint Eint ''FieldLoopBrho'' (z - R / 2) rho R) (\<lambda>b.
     Inr (a + b)))"

definition MagneticFieldHelmholtzBrho :: "(real \<Rightarrow> real) \<Rightarrow> (real \<Rightarrow> real) \<Rightarrow> real \<Rightarrow> real \<Rightarrow> real \<Rightarrow> real \<Rightarrow> real result" where
  "MagneticFieldHelmholtzBrho Kint Eint z rho R I =
     andThen (py_div (mu0 * I) (2 * R)) (\<lambda>c.
     andThen (FieldHelmholtzBrho Kint Eint z rho R) (\<lambda>f. Inr (c * f)))"

subsection \<open>Anti-Helmholtz coil\<close>

definition FieldAntiHelmholtzOnAxis :: "real \<Rightarrow> real \<Rightarrow> real result" where
  "FieldAntiHelmholtzOnAxis z R =
     andThen (py_div (R ^ 3) ((R\<^sup>2 + (z + R / 2)\<^sup>2) powr (3 / 2))) (\<lambda>a.
     andThen (py_div (R ^ 3) ((R\<^sup>2 + (z - R / 2)\<^sup>2) powr (3 / 2))) (\<lambda>b.
     Inr (a - b)))"

definition MagneticFieldAntiHelmholtzOnAxis :: "real \<Rightarrow> real \<Rightarrow> real \<Rightarrow> real result" where
  "MagneticFieldAntiHelmholtzOnAxis z R I =
     andThen (py_div (mu0 * I) (2 * R)) (\<lambda>c.
     andThen (FieldAntiHelmholtzOnAxis z R) (\<lambda>f. Inr (c * f)))"

definition FieldAntiHelmholtzBz :: "(real \<Rightarrow> real) \<Rightarrow> (real \<Rightarrow> real) \<Rightarrow> real \<Rightarrow> real \<Rightarrow> real \<Rightarrow> real result" where
  "FieldAntiHelmholtzBz Kint Eint z rho R =
     andThen (call_loop Kint Eint ''FieldLoopBz'' (z + R / 2) rho R) (\<lambda>a.
     andThen (call_loop Kint Eint ''FieldLoopBz'' (z - R / 2) rho R) (\<lambda>b.
     Inr (a - b)))"

definition MagneticFieldAntiHelmholtzBz :: "(real \<Rightarrow> real) \<Rightarrow> (real \<Rightarrow> real) \<Rightarrow> real \<Rightarrow> real \<Rightarrow> real \<Rightarrow> real \<Rightarrow> real result" where
  "MagneticFieldAntiHelmholtzBz Kint Eint z rho R I =
     andThen (py_div (mu0 * I) (2 * R)) (\<lambda>c.
     andThen (FieldAntiHelmholtzBz Kint Eint z rho R) (\<lambda>f. Inr (c * f)))"

definition FieldAntiHelmholtzBrho :: "(real \<Rightarrow> real) \<Rightarrow> (real \<Rightarrow> real) \<Rightarrow> real \<Rightarrow> real \<Rightarrow> real \<Rightarrow> real result" where
  "FieldAntiHelmholtzBrho Kint Eint z rho R =
     andThen (call_loop Kint Eint ''FieldLoopBro'' (z + R / 2) rho R) (\<lambda>a.
     andThen (call_loop Kint Eint ''FieldLoopBrho'' (z - R / 2) rho R) (\<lambda>b.
     Inr (a - b)))"

definition MagneticFieldAntiHelmholtzBrho :: "(real \<Rightarrow> real) \<Rightarrow> (real \<Rightarrow> real) \<Rightarrow> real \<Rightarrow> real \<Rightarrow> real \<Rightarrow> real \<Rightarrow> real result" where
  "MagneticFieldAntiHelmholtzBrho Kint Eint z rho R I =
     andThen (py_div (mu0 * I) (2 * R)) (\<lambda>c.
     andThen (FieldAntiHelmholtzBrho Kint Eint z rho R) (\<lambda>f. Inr (c * f)))"

subsection \<open>The on-axis evaluations in binary64 arithmetic\<close>

text \<open>
  The two single-loop functions that meet on the axis, once more with every operation
  rounded as Python and numpy round it: IEEE 754 binary64, to nearest, ties to even. A
  float is the real number it denotes. The exponent range is not bounded here, so
  overflow and subnormal numbers are outside this model too.
\<close>

definition pow2 :: "int \<Rightarrow> real" where
  "pow2 k = (if 0 \<le> k then 2 ^ nat k else 1 / 2 ^ nat (- k))"

definition expo :: "real \<Rightarrow> int" where
  "expo x = \<lfloor>log 2 \<bar>x\<bar>\<rfloor>"

definition round_even :: "real \<Rightarrow> int" where
  "round_even y =
     (let f = \<lfloor>y\<rfloor> in
      if y - of_int f < 1 / 2 then f
      else if 1 / 2 < y - of_int f then f + 1
      else if even f then f else f + 1)"

text \<open>The binary64 number nearest to \<open>x\<close>: 53 significant bits.\<close>

definition fl :: "real \<Rightarrow> real" where
  "fl x = (if x = 0 then 0 else of_int (round_even (x / pow2 (expo x - 52))) * pow2 (expo x - 52))"

text \<open>\<^verbatim>\<open>np.pi\<close>, the binary64 number nearest to \<open>pi\<close>.\<close>

definition pi_f64 :: real where
  "pi_f64 = 884279719003555 / 2 ^ 48"

text \<open>\<^verbatim>\<open>a / b\<close> in binary64, on Python scalars and with a numpy operand.\<close>

definition py_div_f64 :: "real \<Rightarrow> real \<Rightarrow> real result" where
  "py_div_f64 a b = (if b = 0 then Inl ZeroDivisionError else Inr (fl (a / b)))"

definition np_div_f64 :: "real \<Rightarrow> real \<Rightarrow> real result" where
  "np_div_f64 a b = (if b = 0 then Inl NonFinite else Inr (fl (a / b)))"

text \<open>
  Lines 36 to 39 of the source. \<open>Kf\<close> and \<open>Ef\<close> are the floats that the two scipy
  functions return.
\<close>

definition FieldLoopBz_f64 :: "(real \<Rightarrow> real) \<Rightarrow> (real \<Rightarrow> real) \<Rightarrow> real \<Rightarrow> real \<Rightarrow> real \<Rightarrow> real result" where
  "FieldLoopBz_f64 Kf Ef z rho R =
     andThen (py_div_f64 (fl (fl (4 * R) * rho)) (fl (fl ((fl (R + rho))\<^sup>2) + fl (z\<^sup>2)))) (\<lambda>ksq.
     andThen (ellipk Kf ksq) (\<lambda>K.
     andThen (ellipe Ef ksq) (\<lambda>E.
     andThen (np_div_f64 R (fl (pi_f64 * fl (sqrt (fl (fl ((fl (R + rho))\<^sup>2) + fl (z\<^sup>2))))))) (\<lambda>c.
     andThen (np_div_f64 (fl (E * fl (fl (fl (R\<^sup>2) - fl (rho\<^sup>2)) - fl (z\<^sup>2))))
                (fl (fl ((fl (R - rho))\<^sup>2) + fl (z\<^sup>2)))) (\<lambda>t.
     Inr (fl (c * fl (K + t))))))))"

text \<open>Line 62 of the source.\<close>

definition FieldLoopOnAxis_f64 :: "real \<Rightarrow> real \<Rightarrow> real result" where
  "FieldLoopOnAxis_f64 z R =
     py_div_f64 (fl (R ^ 3)) (fl ((fl (fl (R\<^sup>2) + fl (z\<^sup>2))) powr (3 / 2)))"

text \<open>
  At \<open>m = 0\<close> both scipy functions return the binary64 number nearest to \<open>pi / 2\<close>;
  the run on the axis calls them nowhere else.
\<close>

definition ellip_f64_on_axis :: "real \<Rightarrow> real" where
  "ellip_f64_on_axis m = pi_f64 / 2"

section \<open>Properties\<close>

lemma andThen_Inr [simp]: "andThen (Inr v) f = f v"
  by (simp add: andThen_def)

lemma andThen_Inl [simp]: "andThen (Inl e) f = Inl e"
  by (simp add: andThen_def)

lemma ellip_coeff_0: "ellip_coeff 0 = 1"
  by (simp add: ellip_coeff_def)

lemma ellipk_series_0: "ellipk_series 0 = pi / 2"
  by (simp add: ellipk_series_def powser_zero ellip_coeff_0)

lemma ellipe_series_0: "ellipe_series 0 = pi / 2"
proof -
  have "(\<Sum>n. ellip_coeff n / (1 - 2 * real n) * 0 ^ n) = ellip_coeff 0 / (1 - 2 * real 0)"
    by (rule powser_zero)
  then show ?thesis
    by (simp add: ellipe_series_def ellip_coeff_0)
qed

lemma powr_three_halves: "0 < x \<Longrightarrow> x powr (3 / 2) = x * sqrt x"
proof -
  assume x: "0 < x"
  have "x powr (3 / 2) = x powr (1 + 1 / 2)" by simp
  also have "\<dots> = x powr 1 * x powr (1 / 2)" by (rule powr_add)
  also have "\<dots> = x * sqrt x" using x by (simp add: powr_half_sqrt)
  finally show ?thesis .
qed

lemma sq_sum_pos: "0 < R \<Longrightarrow> 0 < R\<^sup>2 + (u::real)\<^sup>2"
  by (simp add: sum_power2_gt_zero_iff)

lemma ksq_less_1:
  fixes R rho z :: real
  assumes "(R - rho)\<^sup>2 + z\<^sup>2 \<noteq> 0"
  shows "4 * R * rho / ((R + rho)\<^sup>2 + z\<^sup>2) < 1"
proof -
  have pos: "0 < (R - rho)\<^sup>2 + z\<^sup>2"
    using assms by (metis sum_power2_gt_zero_iff sum_power2_eq_zero_iff)
  have eq: "(R + rho)\<^sup>2 + z\<^sup>2 = 4 * R * rho + ((R - rho)\<^sup>2 + z\<^sup>2)"
    by (simp add: power2_eq_square algebra_simps)
  show ?thesis
  proof (cases "(R + rho)\<^sup>2 + z\<^sup>2 = 0")
    case True then show ?thesis by simp
  next
    case False
    then have "0 < (R + rho)\<^sup>2 + z\<^sup>2"
      by (metis sum_power2_gt_zero_iff sum_power2_eq_zero_iff)
    then show ?thesis using pos eq by (simp add: divide_less_eq)
  qed
qed

lemma FieldLoopBz_value:
  assumes "(R + rho)\<^sup>2 + z\<^sup>2 \<noteq> 0" and "(R - rho)\<^sup>2 + z\<^sup>2 \<noteq> 0"
  shows "FieldLoopBz Kint Eint z rho R =
    Inr (R / (pi * sqrt ((R + rho)\<^sup>2 + z\<^sup>2)) *
      (Kint (4 * R * rho / ((R + rho)\<^sup>2 + z\<^sup>2)) +
       Eint (4 * R * rho / ((R + rho)\<^sup>2 + z\<^sup>2)) * (R\<^sup>2 - rho\<^sup>2 - z\<^sup>2) / ((R - rho)\<^sup>2 + z\<^sup>2)))"
proof -
  have lt: "4 * R * rho / ((R + rho)\<^sup>2 + z\<^sup>2) < 1"
    using assms(2) by (rule ksq_less_1)
  show ?thesis
    using assms lt by (simp add: FieldLoopBz_def py_div_def np_div_def ellipk_def ellipe_def)
qed


lemma FieldLoopOnAxis_value:
  "0 < R \<Longrightarrow> FieldLoopOnAxis z R = Inr (R ^ 3 / (R\<^sup>2 + z\<^sup>2) powr (3 / 2))"
  using sq_sum_pos [of R z] by (simp add: FieldLoopOnAxis_def py_div_def)

lemma call_loop_Bz: "call_loop Kint Eint ''FieldLoopBz'' z rho R = FieldLoopBz Kint Eint z rho R"
  by (simp add: call_loop_def module_loop_functions_def)

lemma call_loop_Bro: "call_loop Kint Eint ''FieldLoopBro'' z rho R = Inl (NameError ''FieldLoopBro'')"
  by (simp add: call_loop_def module_loop_functions_def)

text \<open>
  C1: the radial field of the Helmholtz and of the anti-Helmholtz pair. The claim asks for
  a finite value at every non-singular input; the source calls \<^verbatim>\<open>FieldLoopBro\<close>, a
  name the module does not bind, so both functions raise \<open>NameError\<close> at every input,
  before the second loop is evaluated.
\<close>

theorem Helmholtz_Brho_NameError:
  "FieldHelmholtzBrho Kint Eint z rho R = Inl (NameError ''FieldLoopBro'') \<and>
   FieldAntiHelmholtzBrho Kint Eint z rho R = Inl (NameError ''FieldLoopBro'')"
  by (simp add: FieldHelmholtzBrho_def FieldAntiHelmholtzBrho_def call_loop_Bro)

text \<open>
  C2, as amended: for \<open>R > 0\<close> and every point but the two with \<open>z = 0\<close> and
  \<open>rho = R\<close> or \<open>rho = - R\<close>, \<open>FieldLoopBz\<close> evaluates both elliptic integrals at
  the parameter \<open>ksq = 4 R rho / ((R + rho)\<^sup>2 + z\<^sup>2)\<close> and returns
  \<open>R / (pi sqrt ((R + rho)\<^sup>2 + z\<^sup>2)) (K + E (R\<^sup>2 - rho\<^sup>2 - z\<^sup>2) / ((R - rho)\<^sup>2 + z\<^sup>2))\<close>.
  At \<open>z = 0, rho = - R\<close> the division for \<open>ksq\<close> raises \<open>ZeroDivisionError\<close>; at
  \<open>z = 0, rho = R\<close>, on the wire, the result is no finite number.
\<close>

theorem FieldLoopBz_formula:
  assumes "0 < R"
  shows "(z \<noteq> 0 \<or> (rho \<noteq> R \<and> rho \<noteq> - R) \<longrightarrow>
           FieldLoopBz Kint Eint z rho R =
             (let ksq = 4 * R * rho / ((R + rho)\<^sup>2 + z\<^sup>2) in
              Inr (R / (pi * sqrt ((R + rho)\<^sup>2 + z\<^sup>2)) *
                   (Kint ksq + Eint ksq * (R\<^sup>2 - rho\<^sup>2 - z\<^sup>2) / ((R - rho)\<^sup>2 + z\<^sup>2))))) \<and>
         FieldLoopBz Kint Eint 0 (- R) R = Inl ZeroDivisionError \<and>
         FieldLoopBz Kint Eint 0 R R = Inl NonFinite"
proof (intro conjI impI)
  assume ns: "z \<noteq> 0 \<or> (rho \<noteq> R \<and> rho \<noteq> - R)"
  have a: "(R + rho)\<^sup>2 + z\<^sup>2 \<noteq> 0"
    using ns by (auto simp: sum_power2_eq_zero_iff)
  have b: "(R - rho)\<^sup>2 + z\<^sup>2 \<noteq> 0"
    using ns by (auto simp: sum_power2_eq_zero_iff)
  show "FieldLoopBz Kint Eint z rho R =
             (let ksq = 4 * R * rho / ((R + rho)\<^sup>2 + z\<^sup>2) in
              Inr (R / (pi * sqrt ((R + rho)\<^sup>2 + z\<^sup>2)) *
                   (Kint ksq + Eint ksq * (R\<^sup>2 - rho\<^sup>2 - z\<^sup>2) / ((R - rho)\<^sup>2 + z\<^sup>2))))"
    using FieldLoopBz_value [OF a b] by (simp add: Let_def)
next
  show "FieldLoopBz Kint Eint 0 (- R) R = Inl ZeroDivisionError"
    by (simp add: FieldLoopBz_def py_div_def)
next
  show "FieldLoopBz Kint Eint 0 R R = Inl NonFinite"
    using assms by (simp add: FieldLoopBz_def py_div_def ellipk_def power2_eq_square)
qed

theorem FieldLoopBz_formula_witness:
  "(0::real) < 1 \<and> (1::real) \<noteq> 0 \<and>
   FieldLoopBz ellipk_series ellipe_series 1 1 1 =
     Inr (1 / (pi * sqrt 5) * (ellipk_series (4 / 5) - ellipe_series (4 / 5))) \<and>
   FieldLoopBz ellipk_series ellipe_series 0 (- 1) 1 = Inl ZeroDivisionError \<and>
   FieldLoopBz ellipk_series ellipe_series 0 1 1 = Inl NonFinite"
  using FieldLoopBz_formula [of 1 1 1 ellipk_series ellipe_series]
  by (simp add: Let_def)

text \<open>
  C2 as stated, for every \<open>rho\<close>, fails at \<open>z = 0, rho = - 1, R = 1\<close>: nothing is
  returned there.
\<close>

theorem FieldLoopBz_formula_counterexample: "FieldLoopBz ellipk_series ellipe_series 0 (- 1) 1 = Inl ZeroDivisionError"
  by (simp add: FieldLoopBz_def py_div_def)

lemma on_axis_bracket:
  fixes a d :: real
  shows "d \<noteq> 0 \<Longrightarrow> pi / 2 + pi / 2 * (2 * a - d) / d = pi * a / d"
  by (simp add: field_simps)

text \<open>
  C3, as amended: for \<open>R > 0\<close> and an evaluator with \<open>K(0) = E(0) = pi / 2\<close>, the
  elliptic-integral formula at \<open>rho = 0\<close> and the on-axis closed form
  \<open>R\<^sup>3 / (R\<^sup>2 + z\<^sup>2) powr (3/2)\<close> are the same real number: the two functions agree
  where no operation rounds.
\<close>

theorem FieldLoopBz_on_axis:
  assumes "0 < R" and "Kint 0 = pi / 2" and "Eint 0 = pi / 2"
  shows "FieldLoopBz Kint Eint z 0 R = FieldLoopOnAxis z R \<and>
         FieldLoopOnAxis z R = Inr (R ^ 3 / (R\<^sup>2 + z\<^sup>2) powr (3 / 2))"
proof -
  let ?d = "R\<^sup>2 + z\<^sup>2"
  have d: "0 < ?d" using assms(1) by (rule sq_sum_pos)
  have s: "0 < sqrt ?d" using d by simp
  have "FieldLoopBz Kint Eint z 0 R =
      Inr (R / (pi * sqrt ?d) * (pi / 2 + pi / 2 * (R\<^sup>2 - z\<^sup>2) / ?d))"
  proof -
    have nz: "(R + 0)\<^sup>2 + z\<^sup>2 \<noteq> 0" "(R - 0)\<^sup>2 + z\<^sup>2 \<noteq> 0"
      using assms(1) by simp_all
    show ?thesis
      by (simp add: FieldLoopBz_value [OF nz] assms(2,3))
  qed
  also have "R / (pi * sqrt ?d) * (pi / 2 + pi / 2 * (R\<^sup>2 - z\<^sup>2) / ?d) = R ^ 3 / (?d * sqrt ?d)"
  proof -
    have dnz: "?d \<noteq> 0" using d by linarith
    have e: "R\<^sup>2 - z\<^sup>2 = 2 * R\<^sup>2 - ?d" by simp
    have "pi / 2 + pi / 2 * (R\<^sup>2 - z\<^sup>2) / ?d = pi * R\<^sup>2 / ?d"
      unfolding e by (rule on_axis_bracket [OF dnz])
    then have "R / (pi * sqrt ?d) * (pi / 2 + pi / 2 * (R\<^sup>2 - z\<^sup>2) / ?d)
        = R / (pi * sqrt ?d) * (pi * R\<^sup>2 / ?d)" by simp
    also have "\<dots> = R ^ 3 / (?d * sqrt ?d)"
      by (simp add: power2_eq_square power3_eq_cube mult_ac)
    finally show ?thesis .
  qed
  also have "?d * sqrt ?d = ?d powr (3 / 2)"
    using d by (simp add: powr_three_halves)
  finally have "FieldLoopBz Kint Eint z 0 R = Inr (R ^ 3 / ?d powr (3 / 2))" .
  then show ?thesis
    using FieldLoopOnAxis_value [OF assms(1), of z] by simp
qed

theorem FieldLoopBz_on_axis_witness:
  "(0::real) < 2 \<and> ellipk_series 0 = pi / 2 \<and> ellipe_series 0 = pi / 2 \<and>
   FieldLoopBz ellipk_series ellipe_series 0 0 2 = FieldLoopOnAxis 0 2 \<and>
   FieldLoopOnAxis 0 2 = Inr 1"
  using FieldLoopBz_on_axis [of 2 ellipk_series ellipe_series 0]
  by (simp add: ellipk_series_0 ellipe_series_0 powr_three_halves)

subsection \<open>Rounding to binary64\<close>

lemma pow2_powr: "pow2 k = 2 powr real_of_int k"
  by (simp add: pow2_def powr_int)

lemma pow2_pos: "0 < pow2 k"
  by (simp add: pow2_powr)

lemma pow2_add: "pow2 (a + b) = pow2 a * pow2 b"
  by (simp add: pow2_powr powr_add)

lemma expo_eq:
  assumes "pow2 e \<le> \<bar>x\<bar>" and "\<bar>x\<bar> < pow2 (e + 1)"
  shows "expo x = e"
proof -
  have "0 < \<bar>x\<bar>" using assms(1) pow2_pos [of e] by linarith
  then show ?thesis
    unfolding expo_def using assms
    by (simp only: floor_log_eq_powr_iff pow2_powr)
qed

lemma fl_eval:
  assumes "pow2 e \<le> \<bar>x\<bar>" and "\<bar>x\<bar> < pow2 (e + 1)"
  shows "fl x = of_int (round_even (x / pow2 (e - 52))) * pow2 (e - 52)"
proof -
  have "x \<noteq> 0" using assms(1) pow2_pos [of e] by auto
  then show ?thesis by (simp add: fl_def expo_eq [OF assms])
qed

lemma round_even_of_int: "round_even (of_int m) = m"
  by (simp add: round_even_def)

lemma fl_exact:
  assumes "2 ^ 52 \<le> \<bar>m\<bar>" and "\<bar>m\<bar> < 2 ^ 53"
  shows "fl (of_int m * pow2 k) = of_int m * pow2 k"
proof -
  let ?x = "of_int m * pow2 k :: real"
  have abs: "\<bar>?x\<bar> = of_int \<bar>m\<bar> * pow2 k"
    using pow2_pos [of k] by (simp add: abs_mult)
  have lo: "pow2 (52 + k) \<le> \<bar>?x\<bar>"
  proof -
    have "real_of_int (2 ^ 52) \<le> of_int \<bar>m\<bar>"
      using assms(1) by (simp only: of_int_le_iff)
    then have "(2 ^ 52 :: real) \<le> of_int \<bar>m\<bar>" by simp
    then have "2 ^ 52 * pow2 k \<le> of_int \<bar>m\<bar> * pow2 k"
      using pow2_pos [of k] by (simp only: mult_le_cancel_right_pos)
    moreover have "pow2 (52 + k) = 2 ^ 52 * pow2 k"
      by (simp add: pow2_add) (simp add: pow2_def)
    ultimately show ?thesis using abs by simp
  qed
  have hi: "\<bar>?x\<bar> < pow2 (52 + k + 1)"
  proof -
    have "of_int \<bar>m\<bar> < real_of_int (2 ^ 53)"
      using assms(2) by (simp only: of_int_less_iff)
    then have "of_int \<bar>m\<bar> < (2 ^ 53 :: real)" by simp
    then have "of_int \<bar>m\<bar> * pow2 k < 2 ^ 53 * pow2 k"
      using pow2_pos [of k] by (simp only: mult_less_cancel_right_pos)
    moreover have "pow2 (52 + k + 1) = 2 ^ 53 * pow2 k"
    proof -
      have "52 + k + 1 = 53 + k" by simp
      then show ?thesis by (simp add: pow2_add) (simp add: pow2_def)
    qed
    ultimately show ?thesis using abs by simp
  qed
  have "fl ?x = of_int (round_even (?x / pow2 (52 + k - 52))) * pow2 (52 + k - 52)"
    by (rule fl_eval [OF lo hi])
  also have "52 + k - 52 = k" by simp
  also have "?x / pow2 k = of_int m" using pow2_pos [of k] by simp
  finally show ?thesis by (simp add: round_even_of_int)
qed


lemma fl_0: "fl 0 = 0"
  by (simp add: fl_def)

lemma fl_1: "fl 1 = 1"
  using fl_exact [of "2 ^ 52" "- 52"] by (simp add: pow2_def)

lemma fl_4: "fl 4 = 4"
  using fl_exact [of "2 ^ 52" "- 50"] by (simp add: pow2_def)

lemma fl_2_30: "fl (2 ^ 30) = 2 ^ 30"
  using fl_exact [of "2 ^ 52" "- 22"] by (simp add: pow2_def)

lemma fl_2_60: "fl (2 ^ 60) = 2 ^ 60"
  using fl_exact [of "2 ^ 52" 8] by (simp add: pow2_def)

lemma fl_2_90: "fl (2 ^ 90) = 2 ^ 90"
  using fl_exact [of "2 ^ 52" 38] by (simp add: pow2_def)

lemma fl_2_m90: "fl (1 / 2 ^ 90) = 1 / 2 ^ 90"
  using fl_exact [of "2 ^ 52" "- 142"] by (simp add: pow2_def)

lemma fl_pi_2_30: "fl (pi_f64 * 2 ^ 30) = pi_f64 * 2 ^ 30"
  using fl_exact [of 7074237752028440 "- 21"] by (simp add: pow2_def pi_f64_def)

lemma fl_half_pi_2_60: "fl (pi_f64 / 2 * - (2 ^ 60)) = pi_f64 / 2 * - (2 ^ 60)"
  using fl_exact [of "- 7074237752028440" 8] by (simp add: pow2_def pi_f64_def)

lemma fl_neg_half_pi: "fl (- (pi_f64 / 2)) = - (pi_f64 / 2)"
  using fl_exact [of "- 7074237752028440" "- 52"] by (simp add: pow2_def pi_f64_def)

lemma fl_absorb_plus: "fl (1 + 2 ^ 60) = 2 ^ 60"
  using fl_eval [of 60 "1 + 2 ^ 60"] by (simp add: pow2_def round_even_def)

lemma fl_absorb_minus: "fl (1 - 2 ^ 60) = - (2 ^ 60)"
  using fl_eval [of 59 "1 - 2 ^ 60"] by (simp add: pow2_def round_even_def)

lemma sqrt_2_60: "sqrt (2 ^ 60) = 2 ^ 30"
  by (rule real_sqrt_unique) simp_all

lemma powr_2_60: "(2 ^ 60 :: real) powr (3 / 2) = 2 ^ 90"
  by (simp add: powr_three_halves sqrt_2_60)


text \<open>Ties go to the even neighbour.\<close>

lemma fl_ties_to_even: "fl (2 ^ 53 + 1) = 2 ^ 53" "fl (2 ^ 53 + 3) = 2 ^ 53 + 4"
  using fl_eval [of 53 "2 ^ 53 + 1"] fl_eval [of 53 "2 ^ 53 + 3"]
  by (simp_all add: pow2_def round_even_def)

lemma sq_2_30: "((2::real) ^ 30)\<^sup>2 = 2 ^ 60"
  by simp

lemma far_sum_plus: "fl (fl ((fl (1 + 0))\<^sup>2) + fl ((2 ^ 30)\<^sup>2)) = 2 ^ 60"
  by (simp only: add_0_right fl_1 one_power2 sq_2_30 fl_2_60 fl_absorb_plus)

lemma far_sum_minus: "fl (fl ((fl (1 - 0))\<^sup>2) + fl ((2 ^ 30)\<^sup>2)) = 2 ^ 60"
  by (simp only: diff_zero fl_1 one_power2 sq_2_30 fl_2_60 fl_absorb_plus)

lemma far_difference: "fl (fl (fl (1\<^sup>2) - fl (0\<^sup>2)) - fl ((2 ^ 30)\<^sup>2)) = - (2 ^ 60)"
  by (simp only: one_power2 zero_power2 fl_0 fl_1 diff_zero sq_2_30 fl_2_60 fl_absorb_minus)

text \<open>
  C3 as stated, exact agreement of the two functions, fails on the floats the code
  computes with. At \<open>z = 2\<^sup>3\<^sup>0, rho = 0, R = 1\<close> the sums \<open>1 + 2\<^sup>6\<^sup>0\<close> and \<open>1 - 2\<^sup>6\<^sup>0\<close>
  round to \<open>2\<^sup>6\<^sup>0\<close> and \<open>- 2\<^sup>6\<^sup>0\<close>, so \<open>K\<close> and \<open>E\<close> cancel and \<open>FieldLoopBz\<close> returns
  0, while \<open>FieldLoopOnAxis\<close> returns \<open>2\<^sup>-\<^sup>9\<^sup>0\<close>.
\<close>

theorem FieldLoopBz_on_axis_counterexample:
  "FieldLoopBz_f64 ellip_f64_on_axis ellip_f64_on_axis (2 ^ 30) 0 1 = Inr 0 \<and>
   FieldLoopOnAxis_f64 (2 ^ 30) 1 = Inr (1 / 2 ^ 90)"
proof
  have n: "fl (fl (4 * 1) * 0) = 0"
    by (simp add: fl_0)
  have k: "py_div_f64 0 (2 ^ 60) = Inr 0"
    by (simp add: py_div_f64_def fl_0)
  have ek: "ellipk ellip_f64_on_axis 0 = Inr (pi_f64 / 2)"
    by (simp add: ellipk_def ellip_f64_on_axis_def)
  have ee: "ellipe ellip_f64_on_axis 0 = Inr (pi_f64 / 2)"
    by (simp add: ellipe_def ellip_f64_on_axis_def)
  have c: "np_div_f64 1 (fl (pi_f64 * fl (sqrt (2 ^ 60)))) = Inr (fl (1 / (pi_f64 * 2 ^ 30)))"
  proof -
    have "pi_f64 * 2 ^ 30 \<noteq> 0" by (simp add: pi_f64_def)
    then show ?thesis
      by (simp only: sqrt_2_60 fl_2_30 fl_pi_2_30 np_div_f64_def if_False)
  qed
  have t: "np_div_f64 (fl (pi_f64 / 2 * - (2 ^ 60))) (2 ^ 60) = Inr (- (pi_f64 / 2))"
  proof -
    have q: "pi_f64 / 2 * - (2 ^ 60) / 2 ^ 60 = - (pi_f64 / 2)" by simp
    have "(2 ^ 60 :: real) \<noteq> 0" by simp
    then show ?thesis
      by (simp only: fl_half_pi_2_60 np_div_f64_def if_False q fl_neg_half_pi)
  qed
  have r: "fl (fl (1 / (pi_f64 * 2 ^ 30)) * fl (pi_f64 / 2 + - (pi_f64 / 2))) = 0"
    by (simp add: fl_0)
  show "FieldLoopBz_f64 ellip_f64_on_axis ellip_f64_on_axis (2 ^ 30) 0 1 = Inr 0"
    unfolding FieldLoopBz_f64_def
    by (simp only: n far_sum_plus far_sum_minus far_difference k ek ee c t r andThen_Inr)
next
  have "(2 ^ 90 :: real) \<noteq> 0" by simp
  then show "FieldLoopOnAxis_f64 (2 ^ 30) 1 = Inr (1 / 2 ^ 90)"
    unfolding FieldLoopOnAxis_f64_def
    by (simp only: power_one fl_1 sq_2_30 fl_2_60 fl_absorb_plus powr_2_60 fl_2_90
        py_div_f64_def if_False fl_2_m90)
qed

text \<open>
  C4: for \<open>R > 0\<close>, \<open>FieldLoopBrho\<close> returns 0 at \<open>rho = 0\<close>, by its guard: the
  closed form behind the guard divides by \<open>pi rho sqrt (\<dots>) = 0\<close> there and would
  return no finite number.
\<close>

theorem FieldLoopBrho_on_axis_zero:
  assumes "0 < R"
  shows "FieldLoopBrho Kint Eint z 0 R = Inr 0 \<and>
         FieldLoopBrho_closed Kint Eint z 0 R = Inl NonFinite"
  using assms
  by (simp add: FieldLoopBrho_def FieldLoopBrho_closed_def py_div_def np_div_def ellipk_def ellipe_def)

theorem FieldLoopBrho_on_axis_zero_witness:
  "(0::real) < 1 \<and> FieldLoopBrho ellipk_series ellipe_series 3 0 1 = Inr 0 \<and>
         FieldLoopBrho_closed ellipk_series ellipe_series 3 0 1 = Inl NonFinite"
  using FieldLoopBrho_on_axis_zero [of 1 ellipk_series ellipe_series 3] by simp


lemma on_axis_term:
  "0 < R \<Longrightarrow> py_div (R ^ 3) ((R\<^sup>2 + u\<^sup>2) powr (3 / 2)) = Inr (R ^ 3 / (R\<^sup>2 + u\<^sup>2) powr (3 / 2))"
  using sq_sum_pos [of R u] by (simp add: py_div_def)

lemma FieldAntiHelmholtzOnAxis_value:
  "0 < R \<Longrightarrow> FieldAntiHelmholtzOnAxis z R =
     Inr (R ^ 3 / (R\<^sup>2 + (z + R / 2)\<^sup>2) powr (3 / 2) - R ^ 3 / (R\<^sup>2 + (z - R / 2)\<^sup>2) powr (3 / 2))"
  by (simp add: FieldAntiHelmholtzOnAxis_def on_axis_term)

lemma FieldHelmholtzOnAxis_value:
  "0 < R \<Longrightarrow> FieldHelmholtzOnAxis z R =
     Inr (R ^ 3 / (R\<^sup>2 + (z + R / 2)\<^sup>2) powr (3 / 2) + R ^ 3 / (R\<^sup>2 + (z - R / 2)\<^sup>2) powr (3 / 2))"
  by (simp add: FieldHelmholtzOnAxis_def on_axis_term)

lemma neg_shift_sq: "(- z + a)\<^sup>2 = (z - a)\<^sup>2" "(- z - a)\<^sup>2 = (z + (a::real))\<^sup>2"
  by (simp_all add: power2_eq_square algebra_simps)

text \<open>
  C6: for \<open>R > 0\<close> the on-axis field of the anti-Helmholtz pair is odd in \<open>z\<close>: the
  calls at \<open>z\<close> and at \<open>- z\<close> return opposite values, and the call at \<open>z = 0\<close>
  returns 0.
\<close>

theorem FieldAntiHelmholtzOnAxis_odd:
  assumes "0 < R"
  shows "(\<exists>v. FieldAntiHelmholtzOnAxis z R = Inr v \<and> FieldAntiHelmholtzOnAxis (- z) R = Inr (- v)) \<and>
         FieldAntiHelmholtzOnAxis 0 R = Inr 0"
proof -
  let ?a = "R ^ 3 / (R\<^sup>2 + (z + R / 2)\<^sup>2) powr (3 / 2)"
  let ?b = "R ^ 3 / (R\<^sup>2 + (z - R / 2)\<^sup>2) powr (3 / 2)"
  have p: "FieldAntiHelmholtzOnAxis z R = Inr (?a - ?b)"
    by (rule FieldAntiHelmholtzOnAxis_value [OF assms])
  have "FieldAntiHelmholtzOnAxis (- z) R =
      Inr (R ^ 3 / (R\<^sup>2 + (- z + R / 2)\<^sup>2) powr (3 / 2) - R ^ 3 / (R\<^sup>2 + (- z - R / 2)\<^sup>2) powr (3 / 2))"
    by (rule FieldAntiHelmholtzOnAxis_value [OF assms])
  then have n: "FieldAntiHelmholtzOnAxis (- z) R = Inr (?b - ?a)"
    by (simp only: neg_shift_sq)
  have m: "FieldAntiHelmholtzOnAxis 0 R = Inr 0"
    using FieldAntiHelmholtzOnAxis_value [OF assms, of 0] by simp
  show ?thesis using p n m by simp
qed

theorem FieldAntiHelmholtzOnAxis_odd_witness:
  "(0::real) < 2 \<and>
   (\<exists>v. FieldAntiHelmholtzOnAxis 1 2 = Inr v \<and> FieldAntiHelmholtzOnAxis (- 1) 2 = Inr (- v)) \<and>
   FieldAntiHelmholtzOnAxis 0 2 = Inr 0"
  using FieldAntiHelmholtzOnAxis_odd [of 2 1] by simp

text \<open>
  C7: for \<open>R > 0\<close>, \<open>FieldHelmholtzOnAxis(0, R)\<close> returns twice the value that
  \<open>FieldLoopOnAxis(R/2, R)\<close> returns.
\<close>

theorem FieldHelmholtzOnAxis_midpoint:
  assumes "0 < R"
  shows "\<exists>v. FieldLoopOnAxis (R / 2) R = Inr v \<and> FieldHelmholtzOnAxis 0 R = Inr (2 * v)"
  using assms by (simp add: FieldHelmholtzOnAxis_value FieldLoopOnAxis_value)

theorem FieldHelmholtzOnAxis_midpoint_witness:
  "(0::real) < 2 \<and> (\<exists>v. FieldLoopOnAxis (2 / 2) 2 = Inr v \<and> FieldHelmholtzOnAxis 0 2 = Inr (2 * v))"
  using FieldHelmholtzOnAxis_midpoint [of 2] by simp

lemma scale_by_mu0:
  "R \<noteq> 0 \<Longrightarrow>
   andThen (py_div a (2 * R)) (\<lambda>c. andThen r (\<lambda>f. Inr (c * f))) =
   map_sum id (\<lambda>f. a / (2 * R) * f) r"
  by (cases r) (simp_all add: py_div_def)

lemma FieldLoopOnAxis_centre: "0 < R \<Longrightarrow> FieldLoopOnAxis 0 R = Inr 1"
  by (simp add: FieldLoopOnAxis_value powr_three_halves power2_eq_square power3_eq_cube)

text \<open>
  C8: \<open>mu0\<close> is \<open>4 pi 10\<^sup>-\<^sup>7\<close>, and for \<open>R > 0\<close> every \<open>MagneticField\<close> function is its
  \<open>Field\<close> function on the same geometric arguments with the returned value multiplied
  by \<open>mu0 I / (2 R)\<close>; what the \<open>Field\<close> function fails with, the \<open>MagneticField\<close>
  function fails with.
\<close>

theorem MagneticField_scaling:
  assumes "0 < R"
  shows "mu0 = 4 * pi * (1 / 10 ^ 7) \<and>
    MagneticFieldLoopOnAxis z R I = map_sum id (\<lambda>f. mu0 * I / (2 * R) * f) (FieldLoopOnAxis z R) \<and>
    MagneticFieldLoopBz Kint Eint z rho R I =
      map_sum id (\<lambda>f. mu0 * I / (2 * R) * f) (FieldLoopBz Kint Eint z rho R) \<and>
    MagneticFieldLoopBrho Kint Eint z rho R I =
      map_sum id (\<lambda>f. mu0 * I / (2 * R) * f) (FieldLoopBrho Kint Eint z rho R) \<and>
    MagneticFieldHelmholtzOnAxis z R I =
      map_sum id (\<lambda>f. mu0 * I / (2 * R) * f) (FieldHelmholtzOnAxis z R) \<and>
    MagneticFieldHelmholtzBz Kint Eint z rho R I =
      map_sum id (\<lambda>f. mu0 * I / (2 * R) * f) (FieldHelmholtzBz Kint Eint z rho R) \<and>
    MagneticFieldHelmholtzBrho Kint Eint z rho R I =
      map_sum id (\<lambda>f. mu0 * I / (2 * R) * f) (FieldHelmholtzBrho Kint Eint z rho R) \<and>
    MagneticFieldAntiHelmholtzOnAxis z R I =
      map_sum id (\<lambda>f. mu0 * I / (2 * R) * f) (FieldAntiHelmholtzOnAxis z R) \<and>
    MagneticFieldAntiHelmholtzBz Kint Eint z rho R I =
      map_sum id (\<lambda>f. mu0 * I / (2 * R) * f) (FieldAntiHelmholtzBz Kint Eint z rho R) \<and>
    MagneticFieldAntiHelmholtzBrho Kint Eint z rho R I =
      map_sum id (\<lambda>f. mu0 * I / (2 * R) * f) (FieldAntiHelmholtzBrho Kint Eint z rho R)"
proof -
  have nz: "R \<noteq> 0" using assms by simp
  note s = scale_by_mu0 [OF nz]
  show ?thesis
    unfolding MagneticFieldLoopOnAxis_def MagneticFieldLoopBz_def MagneticFieldLoopBrho_def
      MagneticFieldHelmholtzOnAxis_def MagneticFieldHelmholtzBz_def MagneticFieldHelmholtzBrho_def
      MagneticFieldAntiHelmholtzOnAxis_def MagneticFieldAntiHelmholtzBz_def
      MagneticFieldAntiHelmholtzBrho_def s
    by (intro conjI refl mu0_def)
qed

theorem MagneticField_scaling_witness:
  "(0::real) < 1 / 20 \<and> FieldLoopOnAxis 0 (1 / 20) = Inr 1 \<and>
   MagneticFieldLoopOnAxis 0 (1 / 20) 1 = Inr (mu0 / (2 * (1 / 20)))"
  using MagneticField_scaling [of "1 / 20" 0 1] FieldLoopOnAxis_centre [of "1 / 20"]
  by simp

text \<open>
  The polygon model run on a square (\<open>N = 4\<close>) at the centre of the loop: each side
  contributes \<open>(0, 0, 1)\<close>, and the field is \<open>4 / (2 pi)\<close> along the axis.
\<close>

lemma range_4: "map int [0..<4] = [0, 1, 2, 3]"
  by (simp add: upt_rec_numeral eval_nat_numeral upt_rec)

lemma three_halves_pi: "sin (3 * pi / 2) = - 1" "cos (3 * pi / 2) = 0"
proof -
  have e: "3 * pi / 2 = 3 / 2 * pi" by simp
  show "sin (3 * pi / 2) = - 1" by (simp only: e sin_3over2_pi)
  show "cos (3 * pi / 2) = 0" by (simp only: e cos_3over2_pi)
qed

lemma square_segment_0: "FieldLoopDiscrete_segment 0 0 4 0 = Inr (0, 0, 1)"
  by (simp add: FieldLoopDiscrete_segment_def py_div_def Let_def)

lemma square_segment_1: "FieldLoopDiscrete_segment 0 0 4 1 = Inr (0, 0, 1)"
  by (simp add: FieldLoopDiscrete_segment_def py_div_def Let_def)

lemma square_segment_2: "FieldLoopDiscrete_segment 0 0 4 2 = Inr (0, 0, 1)"
  by (simp add: FieldLoopDiscrete_segment_def py_div_def Let_def three_halves_pi)

lemma square_segment_3: "FieldLoopDiscrete_segment 0 0 4 3 = Inr (0, 0, 1)"
  by (simp add: FieldLoopDiscrete_segment_def py_div_def Let_def three_halves_pi)

lemma FieldLoopDiscrete_square_centre: "FieldLoopDiscrete 0 0 4 = Inr (0, 0, 2 / pi)"
  by (simp add: FieldLoopDiscrete_def range_4 square_segment_0 square_segment_1 square_segment_2 square_segment_3)

lemma upt_nat_pos: "0 < N \<Longrightarrow> map int [0..<nat N] = 0 # map int [Suc 0..<nat N]"
  by (simp add: upt_conv_Cons)

lemma segment_on_wire:
  "N \<noteq> 0 \<Longrightarrow> FieldLoopDiscrete_segment 0 1 N 0 = Inl NonFinite"
  by (simp add: FieldLoopDiscrete_segment_def py_div_def Let_def)

text \<open>
  C9: at \<open>z = 0\<close> and \<open>\<bar>rho\<bar> = 1\<close>, for every \<open>N\<close>, \<open>FieldLoopDiscrete\<close> returns the
  zero vector from its guard. The loop it skips would divide by the cube of a
  zero-length displacement: at \<open>rho = 1\<close> already in its first segment.
\<close>

theorem FieldLoopDiscrete_on_wire:
  assumes "\<bar>rho\<bar> = 1"
  shows "FieldLoopDiscrete 0 rho N = Inr (0, 0, 0) \<and>
         (0 < N \<longrightarrow> FieldLoopDiscrete_loop 0 1 N (map int [0..<nat N]) (0, 0, 0) = Inl NonFinite)"
  using assms by (simp add: FieldLoopDiscrete_def upt_nat_pos segment_on_wire)

theorem FieldLoopDiscrete_on_wire_witness:
  "\<bar>- 1 :: real\<bar> = 1 \<and> FieldLoopDiscrete 0 (- 1) 360 = Inr (0, 0, 0) \<and> (0::int) < 360 \<and>
   FieldLoopDiscrete_loop 0 1 360 (map int [0..<nat 360]) (0, 0, 0) = Inl NonFinite"
  using FieldLoopDiscrete_on_wire [of "- 1" 360] by simp

text \<open>
  C10: for \<open>R > 0\<close> and every \<open>rho\<close>, the axial field of the anti-Helmholtz pair
  off the axis is 0 in the midplane \<open>z = 0\<close>: both loops are evaluated at distance
  \<open>R / 2\<close> from their planes, where no denominator vanishes, and \<open>FieldLoopBz\<close> is
  even in \<open>z\<close>.
\<close>

theorem FieldAntiHelmholtzBz_midplane:
  assumes "0 < R"
  shows "FieldAntiHelmholtzBz Kint Eint 0 rho R = Inr 0"
proof -
  have h: "R / 2 \<noteq> 0" using assms by simp
  have a: "(R + rho)\<^sup>2 + (R / 2)\<^sup>2 \<noteq> 0" and b: "(R - rho)\<^sup>2 + (R / 2)\<^sup>2 \<noteq> 0"
    using h by (simp_all only: sum_power2_eq_zero_iff) simp_all
  have "FieldLoopBz Kint Eint (- (R / 2)) rho R = FieldLoopBz Kint Eint (R / 2) rho R"
    by (simp add: FieldLoopBz_def)
  then show ?thesis
    by (simp add: FieldAntiHelmholtzBz_def call_loop_Bz FieldLoopBz_value [OF a b])
qed

theorem FieldAntiHelmholtzBz_midplane_witness:
  "(0::real) < 1 \<and> FieldAntiHelmholtzBz ellipk_series ellipe_series 0 (1 / 2) 1 = Inr 0"
  using FieldAntiHelmholtzBz_midplane [of 1 ellipk_series ellipe_series "1 / 2"] by simp


text \<open>
  C5: the axial field of a loop is even in \<open>z\<close>. The two calls have the same outcome
  at every input: the same value, or the same failure at a singular point.
\<close>

theorem FieldLoopBz_even:
  "FieldLoopBz Kint Eint z rho R = FieldLoopBz Kint Eint (- z) rho R"
  by (simp add: FieldLoopBz_def)

end
